theory Spec2Isabelle
  imports Complex_Main
begin

section \<open>Data model\<close>

text \<open>
  A Python \<open>str\<close> is a sequence of Unicode code points, so a text is a list of code
  points and \<open>len\<close> is \<open>length\<close>. File contents are bytes (\<open>char\<close> is a byte), and a
  path is a string.
\<close>

type_synonym uchar = nat
type_synonym ustr = "uchar list"
type_synonym bytes = string
type_synonym path = string

text \<open>The exception classes that occur; each of them derives from \<open>Exception\<close>.\<close>

datatype exn =
    FileNotFoundError
  | FileExistsError
  | IsADirectoryError
  | NotADirectoryError
  | ValueError
  | UnicodeError
  | UnicodeDecodeError
  | TypeError
  | OSError
  | LibraryError

datatype encoding = UTF8 | GBK | GB2312 | UTF16

text \<open>
  What the program takes from the Python runtime and from its libraries, none of which is
  part of the repository: the Unicode character properties behind \<open>str.isalnum\<close>,
  \<open>str.isspace\<close> and the regular expression classes \<open>\w\<close>, \<open>\s\<close>, \<open>\d\<close>; the
  segmenter \<open>jieba.cut\<close> (with the academic words registered by \<open>__init__\<close>); the call
  \<open>vectorizer.fit_transform\<close> followed by \<open>cosine_similarity(...)[0][0]\<close>, which either
  raises or yields a number; what \<open>read\<close> does with the bytes of a file opened in text
  mode with a given encoding, which is to return the decoded text or to raise
  (\<open>UnicodeDecodeError\<close> from the codec, or another exception such as the plain
  \<open>UnicodeError\<close> of the utf-16 reader on a stream without byte order mark); the float
  formatting \<open>f"{x:.2f}"\<close>; and three numbers of the file system: the size that
  \<open>os.path.getsize\<close> reports for a directory, the longest file name and the length from
  which on a path is too long. Floats are idealised as real numbers.
\<close>

record platform =
  u_isalnum :: "uchar \<Rightarrow> bool"
  u_isspace :: "uchar \<Rightarrow> bool"
  u_isdecimal :: "uchar \<Rightarrow> bool"
  jieba_cut :: "ustr \<Rightarrow> ustr list"
  fit_cosine :: "ustr \<Rightarrow> ustr \<Rightarrow> exn + real"
  codec_decode :: "encoding \<Rightarrow> bytes \<Rightarrow> exn + ustr"
  format_2f :: "real \<Rightarrow> string"
  dir_size :: nat
  name_max :: nat
  path_max :: nat

section \<open>Strings and regular expressions\<close>

text \<open>\<open>s.strip()\<close> and \<open>s.isspace()\<close> (the latter is false on the empty string).\<close>

definition strip :: "platform \<Rightarrow> ustr \<Rightarrow> ustr" where
  "strip P s = rev (dropWhile (u_isspace P) (rev (dropWhile (u_isspace P) s)))"

definition isspace :: "platform \<Rightarrow> ustr \<Rightarrow> bool" where
  "isspace P s = (s \<noteq> [] \<and> list_all (u_isspace P) s)"

text \<open>
  \<open>re.sub\<close> for the two shapes of pattern the program uses: a single character class
  (every matching character is replaced) and a class followed by \<open>+\<close> (every maximal
  run of matching characters is replaced, left to right).
\<close>

definition re_sub_each :: "(uchar \<Rightarrow> bool) \<Rightarrow> ustr \<Rightarrow> ustr \<Rightarrow> ustr" where
  "re_sub_each p r s = concat (map (\<lambda>c. if p c then r else [c]) s)"

function re_sub_runs :: "(uchar \<Rightarrow> bool) \<Rightarrow> ustr \<Rightarrow> ustr \<Rightarrow> ustr" where
  "re_sub_runs p r [] = []"
| "re_sub_runs p r (c # cs) =
     (if p c then r @ re_sub_runs p r (dropWhile p cs) else c # re_sub_runs p r cs)"
  by pat_completeness auto
termination
  by (relation "measure (\<lambda>(p, r, s). length s)")
     (auto simp: less_Suc_eq_le length_dropWhile_le)

text \<open>\<open>\w\<close> on \<open>str\<close> patterns: alphanumeric or the underscore.\<close>

definition word_char :: "platform \<Rightarrow> uchar \<Rightarrow> bool" where
  "word_char P c = (u_isalnum P c \<or> c = 0x5F)"

definition cjk :: "uchar \<Rightarrow> bool" where
  "cjk c = (0x4E00 \<le> c \<and> c \<le> 0x9FFF)"

text \<open>\<open>sep.join(ws)\<close>.\<close>

fun join :: "'a list \<Rightarrow> 'a list list \<Rightarrow> 'a list" where
  "join sep [] = []"
| "join sep [w] = w"
| "join sep (w # ws) = w @ sep @ join sep ws"

section \<open>Preprocessing\<close>

definition stop_words :: "ustr list" where
  "stop_words =
    [[0x7684], [0x4E86], [0x5728], [0x662F], [0x6211], [0x6709], [0x548C], [0x5C31],
     [0x4E0D], [0x4EBA], [0x90FD], [0x4E00], [0x4E00, 0x4E2A], [0x4E0A], [0x4E5F], [0x5F88],
     [0x5230], [0x8BF4], [0x8981], [0x53BB], [0x4F60], [0x4F1A], [0x7740], [0x6CA1, 0x6709],
     [0x770B], [0x597D], [0x81EA, 0x5DF1], [0x8FD9, 0x4E2A], [0x90A3, 0x4E2A], [0x4ED6],
     [0x5979], [0x5B83], [0x6211, 0x4EEC], [0x4F60, 0x4EEC], [0x4ED6, 0x4EEC], [0x8FD9],
     [0x90A3], [0x54EA], [0x600E, 0x4E48], [0x4EC0, 0x4E48], [0x4E3A, 0x4EC0, 0x4E48],
     [0x56E0, 0x4E3A], [0x6240, 0x4EE5], [0x4F46, 0x662F], [0x867D, 0x7136],
     [0x5982, 0x679C], [0x7136, 0x540E], [0x53EF, 0x4EE5], [0x5E94, 0x8BE5],
     [0x9700, 0x8981]]"

text \<open>
  \<open>_clean_text\<close>: \<open>re.sub(r'[^\w\s\u4e00-\u9fff]', '', text)\<close>, then
  \<open>re.sub(r'\d+', '', text)\<close>, then \<open>re.sub(r'\s+', ' ', text)\<close>, then \<open>strip()\<close>.
\<close>

definition clean_text :: "platform \<Rightarrow> ustr \<Rightarrow> ustr" where
  "clean_text P t =
     (let t1 = re_sub_each (\<lambda>c. \<not> (word_char P c \<or> u_isspace P c \<or> cjk c)) [] t;
          t2 = re_sub_runs (u_isdecimal P) [] t1;
          t3 = re_sub_runs (u_isspace P) [0x20] t2
      in strip P t3)"

definition preprocess_text :: "platform \<Rightarrow> ustr \<Rightarrow> ustr list" where
  "preprocess_text P t =
     (if t = [] \<or> strip P t = [] then []
      else filter (\<lambda>word. strip P word \<noteq> [] \<and> length word > 1 \<and>
                            word \<notin> set stop_words \<and> \<not> isspace P word)
             (jieba_cut P (clean_text P t)))"

section \<open>Similarity\<close>

text \<open>
  Python's \<open>min(a, b)\<close> is \<open>b\<close> when \<open>b < a\<close> and \<open>a\<close> otherwise, \<open>max(a, b)\<close> is
  \<open>b\<close> when \<open>b > a\<close>. \<open>round(x, 4)\<close> rounds to the nearest multiple of \<open>10\<^sup>-\<^sup>4\<close>, ties
  to the even one.
\<close>

definition py_min :: "real \<Rightarrow> real \<Rightarrow> real" where
  "py_min a b = (if b < a then b else a)"

definition py_max :: "real \<Rightarrow> real \<Rightarrow> real" where
  "py_max a b = (if b > a then b else a)"

definition round_half_even :: "real \<Rightarrow> int" where
  "round_half_even y =
     (let f = \<lfloor>y\<rfloor>; d = y - of_int f
      in if d < 1 / 2 then f else if d > 1 / 2 then f + 1
         else if even f then f else f + 1)"

definition py_round4 :: "real \<Rightarrow> real" where
  "py_round4 x = of_int (round_half_even (x * 10000)) / 10000"

definition calculate_similarity :: "platform \<Rightarrow> ustr \<Rightarrow> ustr \<Rightarrow> real" where
  "calculate_similarity P text1 text2 =
     (let words1 = preprocess_text P text1;
          words2 = preprocess_text P text2
      in if words1 = [] \<or> words2 = [] then 0
         else
           (case fit_cosine P (join [0x20] words1) (join [0x20] words2) of
              Inr similarity \<Rightarrow> py_round4 (py_max 0 (py_min 1 similarity))
            | Inl e \<Rightarrow> 0))"

section \<open>Files\<close>

text \<open>
  The file system is a tree without symbolic links and without permissions: a location is
  the list of names that leads to it from the root, and the file system records the
  current directory and what is at each location, a regular file with its bytes or a
  directory. The root is a directory.
\<close>

datatype node = File bytes | Dir

type_synonym loc = "string list"

record world =
  cwd :: loc
  nodes :: "loc \<Rightarrow> node option"

definition node_at :: "world \<Rightarrow> loc \<Rightarrow> node option" where
  "node_at w l = (if l = [] then Some Dir else nodes w l)"

text \<open>
  What Python and the kernel check on a path before looking anything up: a null character
  is a \<open>ValueError\<close>, the empty path does not exist, and a path of \<open>path_max\<close> bytes or
  more is too long.
\<close>

definition path_check :: "platform \<Rightarrow> path \<Rightarrow> exn option" where
  "path_check P p =
     (if CHR 0x00 \<in> set p then Some ValueError
      else if p = [] then Some FileNotFoundError
      else if path_max P \<le> length p then Some OSError
      else None)"

text \<open>The names between the slashes of a path; empty ones count for nothing.\<close>

fun components_from :: "string \<Rightarrow> path \<Rightarrow> string list" where
  "components_from acc [] = (if acc = [] then [] else [acc])"
| "components_from acc (c # cs) =
     (if c = CHR ''/'' then (if acc = [] then [] else [acc]) @ components_from [] cs
      else components_from (acc @ [c]) cs)"

definition components :: "path \<Rightarrow> string list" where
  "components p = components_from [] p"

definition start_of :: "world \<Rightarrow> path \<Rightarrow> loc" where
  "start_of w p = (if p \<noteq> [] \<and> hd p = CHR ''/'' then [] else cwd w)"

definition trailing_slash :: "path \<Rightarrow> bool" where
  "trailing_slash p = (p \<noteq> [] \<and> last p = CHR ''/'')"

text \<open>
  Path resolution, name by name. Every name, also \<open>.\<close> and \<open>..\<close>, is looked up in a
  directory: from a missing location the walk fails with \<open>FileNotFoundError\<close>, from a
  regular file with \<open>NotADirectoryError\<close>. A name longer than \<open>name_max\<close> is an
  \<open>OSError\<close>.
\<close>

fun walk :: "platform \<Rightarrow> world \<Rightarrow> loc \<Rightarrow> string list \<Rightarrow> exn + loc" where
  "walk P w cur [] = Inr cur"
| "walk P w cur (c # cs) =
     (case node_at w cur of
        None \<Rightarrow> Inl FileNotFoundError
      | Some (File b) \<Rightarrow> Inl NotADirectoryError
      | Some Dir \<Rightarrow>
          if c = ''.'' then walk P w cur cs
          else if c = ''..'' then walk P w (butlast cur) cs
          else if name_max P < length c then Inl OSError
          else if node_at w (cur @ [c]) = None then Inl FileNotFoundError
          else walk P w (cur @ [c]) cs)"

text \<open>\<open>os.stat\<close>: what a path leads to. A path that ends in a slash leads to no file.\<close>

definition lookup :: "platform \<Rightarrow> world \<Rightarrow> path \<Rightarrow> exn + node" where
  "lookup P w p =
     (case path_check P p of
        Some e \<Rightarrow> Inl e
      | None \<Rightarrow>
          (case walk P w (start_of w p) (components p) of
             Inl e \<Rightarrow> Inl e
           | Inr l \<Rightarrow>
               (case node_at w l of
                  None \<Rightarrow> Inl FileNotFoundError
                | Some Dir \<Rightarrow> Inr Dir
                | Some (File b) \<Rightarrow>
                    if trailing_slash p then Inl NotADirectoryError else Inr (File b))))"

definition os_path_exists :: "platform \<Rightarrow> world \<Rightarrow> path \<Rightarrow> bool" where
  "os_path_exists P w p = (case lookup P w p of Inr n \<Rightarrow> True | Inl e \<Rightarrow> False)"

definition os_path_getsize :: "platform \<Rightarrow> world \<Rightarrow> path \<Rightarrow> exn + nat" where
  "os_path_getsize P w p =
     (case lookup P w p of
        Inl e \<Rightarrow> Inl e
      | Inr (File b) \<Rightarrow> Inr (length b)
      | Inr Dir \<Rightarrow> Inr (dir_size P))"


text \<open>\<open>open(file_path, 'r', encoding=encoding)\<close> followed by \<open>f.read()\<close>.\<close>

definition open_read :: "platform \<Rightarrow> world \<Rightarrow> path \<Rightarrow> encoding \<Rightarrow> exn + ustr" where
  "open_read P w p enc =
     (case lookup P w p of
        Inl e \<Rightarrow> Inl e
      | Inr Dir \<Rightarrow> Inl IsADirectoryError
      | Inr (File b) \<Rightarrow> codec_decode P enc b)"

definition encodings :: "encoding list" where
  "encodings = [UTF8, GBK, GB2312, UTF16]"

text \<open>
  The loop of \<open>read_file\<close> over the encodings. Only \<open>UnicodeDecodeError\<close> is caught; the
  \<open>ValueError\<close> raised for blank content and every other exception of \<open>open\<close> and
  \<open>read\<close> leave the loop and the function. After the loop the source evaluates
  \<open>UnicodeDecodeError(f"...")\<close> with one argument; the constructor takes exactly five, so
  the evaluation raises \<open>TypeError\<close> and no \<open>UnicodeDecodeError\<close> is ever built.
\<close>

fun try_encodings :: "platform \<Rightarrow> world \<Rightarrow> path \<Rightarrow> encoding list \<Rightarrow> exn + ustr" where
  "try_encodings P w p [] = Inl TypeError"
| "try_encodings P w p (enc # encs) =
     (case open_read P w p enc of
        Inr s \<Rightarrow> (let content = strip P s
                  in if content \<noteq> [] then Inr content else Inl ValueError)
      | Inl e \<Rightarrow> if e = UnicodeDecodeError then try_encodings P w p encs else Inl e)"

definition read_file :: "platform \<Rightarrow> world \<Rightarrow> path \<Rightarrow> exn + ustr" where
  "read_file P w file_path =
     (if \<not> os_path_exists P w file_path then Inl FileNotFoundError
      else
        (case os_path_getsize P w file_path of
           Inl e \<Rightarrow> Inl e
         | Inr n \<Rightarrow> if n = 0 then Inr [] else try_encodings P w file_path encodings))"















section \<open>The vectorizer and the scorer\<close>

text \<open>
  Modelled from the spec: the two calls into scikit-learn,
  \<open>TfidfVectorizer.fit_transform\<close> and \<open>cosine_similarity\<close>, whose code is not part of
  the repository. The definitions follow the contracts \<open>vectorize\<close> and \<open>score\<close> of the
  design: a vocabulary built from the two documents only and capped to the \<open>max_features\<close>
  most frequent features, raw counts as term frequency, the smoothed inverse document
  frequency of a corpus of two documents, and the cosine with the zero vector scoring 0.
  They are stated in exact real arithmetic, over the features of the two documents. The
  constructor in \<open>__init__\<close> passes the identity as tokenizer and as preprocessor, so the
  features of a document are the items that iterating over the document yields.
\<close>

text \<open>
  Modelled from the spec: the cap N of the vocabulary, which the constructor sets with
  \<open>max_features=5000\<close>.
\<close>

definition max_features :: nat where
  "max_features = 5000"

text \<open>
  Modelled from the spec: the vocabulary is the set of distinct features of the two
  documents, in sorted order; when there are more than the cap, the features of highest
  total count stay.
\<close>

definition vocabulary :: "'f::linorder list \<Rightarrow> 'f list \<Rightarrow> 'f list" where
  "vocabulary a b =
     (let feats = sorted_list_of_set (set a \<union> set b)
      in if length feats > max_features
         then (let top = take max_features
                           (sort_key (\<lambda>f. - int (count_list a f + count_list b f)) feats)
               in filter (\<lambda>f. f \<in> set top) feats)
         else feats)"

text \<open>
  Modelled from the spec: the inverse document frequency of a corpus of two documents,
  \<open>ln ((1 + 2) / (1 + df)) + 1\<close>, lower for a feature of both documents than for a
  feature of one; the weight of a feature in a document is its raw count times that.
\<close>

definition doc_freq :: "'f list \<Rightarrow> 'f list \<Rightarrow> 'f \<Rightarrow> nat" where
  "doc_freq a b f = (if f \<in> set a then 1 else 0) + (if f \<in> set b then 1 else 0)"

definition idf :: "'f list \<Rightarrow> 'f list \<Rightarrow> 'f \<Rightarrow> real" where
  "idf a b f = ln ((1 + 2) / (1 + real (doc_freq a b f))) + 1"

definition feature_vector :: "'f::linorder list \<Rightarrow> 'f list \<Rightarrow> 'f list \<Rightarrow> real list" where
  "feature_vector a b d =
     map (\<lambda>f. real (count_list d f) * idf a b f) (vocabulary a b)"

definition vectorize :: "'f::linorder list \<Rightarrow> 'f list \<Rightarrow> real list \<times> real list" where
  "vectorize a b = (feature_vector a b a, feature_vector a b b)"

text \<open>
  Modelled from the spec: the score is \<open>dot(vecA, vecB) / (\<parallel>vecA\<parallel> \<sqdot> \<parallel>vecB\<parallel>)\<close>, and 0 when
  either magnitude is zero.
\<close>

definition dot :: "real list \<Rightarrow> real list \<Rightarrow> real" where
  "dot x y = sum_list (map2 (*) x y)"

definition magnitude :: "real list \<Rightarrow> real" where
  "magnitude x = sqrt (dot x x)"

definition score :: "real list \<Rightarrow> real list \<Rightarrow> real" where
  "score x y =
     (if magnitude x = 0 \<or> magnitude y = 0 then 0
      else dot x y / (magnitude x * magnitude y))"

text \<open>
  Modelled from the spec: \<open>fit_transform\<close> on the two joined token sequences followed by
  \<open>cosine_similarity\<close> of the two rows. The features of a joined sequence are its
  characters, since the tokenizer is the identity and a string iterates by character.
\<close>

definition tfidf_cosine :: "ustr \<Rightarrow> ustr \<Rightarrow> exn + real" where
  "tfidf_cosine doc1 doc2 = (case vectorize doc1 doc2 of (x, y) \<Rightarrow> Inr (score x y))"

text \<open>A platform whose vectorizer and scorer are the ones above.\<close>

definition with_tfidf :: "platform \<Rightarrow> platform" where
  "with_tfidf P = P\<lparr>fit_cosine := tfidf_cosine\<rparr>"

section \<open>The cleaning steps in words\<close>

text \<open>
  The steps of \<open>_clean_text\<close> as operations on characters: keeping the characters of a
  class, and replacing every run of characters of a class by a single space.
\<close>

definition kept_char :: "platform \<Rightarrow> uchar \<Rightarrow> bool" where
  "kept_char P c = (u_isspace P c \<or> u_isalnum P c \<or> c = 0x5F \<or> cjk c)"

fun squeeze :: "(uchar \<Rightarrow> bool) \<Rightarrow> ustr \<Rightarrow> ustr" where
  "squeeze p [] = []"
| "squeeze p [c] = [if p c then 0x20 else c]"
| "squeeze p (c # d # cs) =
     (if p c \<and> p d then squeeze p (d # cs)
      else (if p c then 0x20 else c) # squeeze p (d # cs))"

definition clean_steps :: "platform \<Rightarrow> ustr \<Rightarrow> ustr" where
  "clean_steps P t =
     strip P (squeeze (u_isspace P)
       (filter (\<lambda>c. \<not> u_isdecimal P c) (filter (kept_char P) t)))"

text \<open>
  The decodings of a file's bytes in the order of the encodings, and the first of them
  that is not blank.
\<close>

definition first_nonblank_decode :: "platform \<Rightarrow> bytes \<Rightarrow> ustr option" where
  "first_nonblank_decode P b =
     (case filter (\<lambda>s. strip P s \<noteq> [])
             (List.map_filter
                (\<lambda>enc. case codec_decode P enc b of Inr s \<Rightarrow> Some s | Inl e \<Rightarrow> None)
                encodings) of
        [] \<Rightarrow> None
      | s # _ \<Rightarrow> Some s)"

section \<open>A platform to evaluate on\<close>

text \<open>
  A small instance of the platform: the Unicode properties of Basic Latin, of the spaces
  U+0085, U+00A0 and U+3000 and of the CJK Unified Ideographs; a segmenter that cuts at
  spaces and yields each space as a segment, as \<open>jieba.cut\<close> does between Latin words;
  a vectorizer that raises; a formatter for numbers below 10; the limits 255 and 4096 of
  Linux; and a table of what CPython's text-mode \<open>read\<close> does with a few files. In utf-8,
  gbk and gb2312 printable ASCII decodes to itself; the bytes C2 A0 are a no-break space in
  utf-8 and U+807D in gbk and are rejected by gb2312; FF and FF FF are rejected by all
  three. The utf-16 reader rejects each of these files: with \<open>UnicodeDecodeError\<close> when
  the length is odd, with a plain \<open>UnicodeError\<close> when it is even, since none starts with a
  byte order mark. Files outside the table are not evaluated anywhere; the table answers
  \<open>UnicodeDecodeError\<close> for them.
\<close>

fun cut_spaces :: "ustr \<Rightarrow> ustr \<Rightarrow> ustr list" where
  "cut_spaces acc [] = (if acc = [] then [] else [acc])"
| "cut_spaces acc (c # cs) =
     (if c = 0x20 then (if acc = [] then [] else [acc]) @ [[0x20]] @ cut_spaces [] cs
      else cut_spaces (acc @ [c]) cs)"

definition printable :: "char \<Rightarrow> bool" where
  "printable c = (0x20 \<le> (of_char c :: nat) \<and> (of_char c :: nat) \<le> 0x7E)"

definition fixture_decode :: "encoding \<Rightarrow> bytes \<Rightarrow> exn + ustr" where
  "fixture_decode enc b =
     (if enc = UTF16 then
        (if b \<noteq> [] \<and> even (length b) \<and>
            (list_all printable b \<or> b = [CHR 0xC2, CHR 0xA0] \<or> b = [CHR 0xFF, CHR 0xFF])
         then Inl UnicodeError else Inl UnicodeDecodeError)
      else if b = [CHR 0xC2, CHR 0xA0] then
        (case enc of UTF8 \<Rightarrow> Inr [0xA0] | GBK \<Rightarrow> Inr [0x807D] | _ \<Rightarrow> Inl UnicodeDecodeError)
      else if list_all printable b then Inr (map of_char b)
      else Inl UnicodeDecodeError)"

definition fixed2 :: "real \<Rightarrow> string" where
  "fixed2 x =
     (let n = nat (round_half_even (x * 100))
      in [char_of (48 + n div 100 mod 10), CHR ''.'',
          char_of (48 + n div 10 mod 10), char_of (48 + n mod 10)])"

definition fixture :: platform where
  "fixture =
     \<lparr>u_isalnum = (\<lambda>c. (48 \<le> c \<and> c \<le> 57) \<or> (65 \<le> c \<and> c \<le> 90) \<or> (97 \<le> c \<and> c \<le> 122) \<or> cjk c),
      u_isspace = (\<lambda>c. c \<in> set [9, 10, 11, 12, 13, 28, 29, 30, 31, 32, 0x85, 0xA0, 0x3000]),
      u_isdecimal = (\<lambda>c. 48 \<le> c \<and> c \<le> 57),
      jieba_cut = cut_spaces [],
      fit_cosine = (\<lambda>doc1 doc2. Inl LibraryError),
      codec_decode = fixture_decode,
      format_2f = fixed2,
      dir_size = 4096,
      name_max = 255,
      path_max = 4096\<rparr>"

text \<open>
  File systems to evaluate on, each with the current directory \<open>/work\<close>: one where it is
  empty; one where it holds a directory \<open>results\<close>; and one where it holds four files,
  of which \<open>nbsp.txt\<close> has the bytes C2 A0, \<open>bad.txt\<close> the byte FF and \<open>nobom.txt\<close>
  the bytes FF FF.
\<close>

definition empty_world :: world where
  "empty_world = \<lparr>cwd = [''work''], nodes = (\<lambda>l. None)([''work''] \<mapsto> Dir)\<rparr>"

definition results_dir_world :: world where
  "results_dir_world =
     empty_world\<lparr>nodes := (nodes empty_world)([''work'', ''results''] \<mapsto> Dir)\<rparr>"

definition sample_world :: world where
  "sample_world =
     empty_world\<lparr>nodes := (nodes empty_world)
       ([''work'', ''orig.txt''] \<mapsto> File ''ab  cd '',
        [''work'', ''nbsp.txt''] \<mapsto> File [CHR 0xC2, CHR 0xA0],
        [''work'', ''bad.txt''] \<mapsto> File [CHR 0xFF],
        [''work'', ''nobom.txt''] \<mapsto> File [CHR 0xFF, CHR 0xFF])\<rparr>"

section \<open>Evaluation and basic facts\<close>

lemmas eval_defs = preprocess_text_def clean_text_def strip_def isspace_def word_char_def
  cjk_def re_sub_each_def fixture_def Let_def

lemmas world_defs = empty_world_def results_dir_world_def sample_world_def

lemma preprocess_text_fit_cosine [simp]:
  "preprocess_text (P\<lparr>fit_cosine := v\<rparr>) t = preprocess_text P t"
  by (simp add: preprocess_text_def clean_text_def strip_def isspace_def word_char_def)

lemma preprocess_text_Nil [simp]: "preprocess_text P [] = []"
  by (simp add: preprocess_text_def)

lemma preprocess_text_blank: "strip P t = [] \<Longrightarrow> preprocess_text P t = []"
  by (simp add: preprocess_text_def)

lemma preprocess_text_all_dropped:
  assumes "\<forall>word \<in> set (jieba_cut P (clean_text P t)).
             length word \<le> 1 \<or> word \<in> set stop_words \<or> isspace P word"
  shows "preprocess_text P t = []"
  using assms by (auto simp: preprocess_text_def filter_empty_conv)

lemma round_half_even_range:
  assumes "0 \<le> y" "y \<le> of_int n"
  shows "0 \<le> round_half_even y \<and> round_half_even y \<le> n"
proof -
  have f0: "0 \<le> \<lfloor>y\<rfloor>" using assms(1) by simp
  have fn: "\<lfloor>y\<rfloor> \<le> n" using assms(2) by (simp add: floor_le_iff)
  have up: "\<lfloor>y\<rfloor> + 1 \<le> n" if "y - of_int \<lfloor>y\<rfloor> \<ge> 1 / 2"
  proof -
    have "of_int \<lfloor>y\<rfloor> < (of_int n :: real)" using that assms(2) by linarith
    then have "\<lfloor>y\<rfloor> < n" by simp
    then show ?thesis by simp
  qed
  show ?thesis
    using f0 fn up by (auto simp: round_half_even_def Let_def not_less)
qed

lemma py_clamp_range: "0 \<le> py_max 0 (py_min 1 s) \<and> py_max 0 (py_min 1 s) \<le> 1"
  by (simp add: py_max_def py_min_def)

lemma py_round4_range:
  assumes "0 \<le> x" "x \<le> 1"
  shows "\<exists>k::int. 0 \<le> k \<and> k \<le> 10000 \<and> py_round4 x = of_int k / 10000"
proof -
  have "0 \<le> x * 10000" "x * 10000 \<le> of_int 10000" using assms by simp_all
  from round_half_even_range [OF this]
  show ?thesis unfolding py_round4_def by blast
qed

section \<open>The score of texts without tokens\<close>

text \<open>
  C2. When the token sequence of either text is empty, \<open>calculate_similarity\<close> returns 0
  whatever the vectorizer and the scorer would do with the two texts, be it a number or
  an exception: they are not consulted. In particular the score of any text against the
  empty string is 0, on either side. The function is total and the value is its ordinary
  result.
\<close>

theorem calculate_similarity_empty_tokens:
  "(preprocess_text P text1 = [] \<or> preprocess_text P text2 = [] \<longrightarrow>
      calculate_similarity (P\<lparr>fit_cosine := v\<rparr>) text1 text2 = 0) \<and>
   calculate_similarity P t [] = 0 \<and> calculate_similarity P [] t = 0"
  by (simp add: calculate_similarity_def Let_def)

theorem calculate_similarity_empty_tokens_witness:
  "preprocess_text fixture [0x20, 0x21] = [] \<and>
   calculate_similarity (fixture\<lparr>fit_cosine := (\<lambda>a b. Inr 1)\<rparr>) [0x20, 0x21] [0x61, 0x62] = 0"
proof -
  have h: "preprocess_text fixture [0x20, 0x21] = []"
    by (simp add: eval_defs stop_words_def)
  from calculate_similarity_empty_tokens
         [of fixture "[0x20, 0x21]" "[0x61, 0x62]" "\<lambda>a b. Inr 1" "[]"] h
  show ?thesis by simp
qed

text \<open>
  C10. A text that is not empty but yields no token, such as one made of blanks,
  punctuation, digits, stop words or single characters, scores 0 against every other text
  on either side, which is the score of the empty string there.
\<close>

theorem calculate_similarity_no_tokens:
  assumes "t \<noteq> []" and "preprocess_text P t = []"
  shows "calculate_similarity P t u = 0 \<and> calculate_similarity P u t = 0 \<and>
         calculate_similarity P t u = calculate_similarity P [] u \<and>
         calculate_similarity P u t = calculate_similarity P u []"
  using assms by (simp add: calculate_similarity_def Let_def)

theorem calculate_similarity_no_tokens_witness:
  "[0x61, 0x20, 0x31, 0x20, 0x21] \<noteq> ([] :: ustr) \<and>
   preprocess_text (with_tfidf fixture) [0x61, 0x20, 0x31, 0x20, 0x21] = [] \<and>
   calculate_similarity (with_tfidf fixture) [0x61, 0x20, 0x31, 0x20, 0x21] [0x61, 0x62] = 0 \<and>
   calculate_similarity (with_tfidf fixture) [0x61, 0x62] [0x61, 0x20, 0x31, 0x20, 0x21] = 0"
proof -
  have h: "preprocess_text fixture [0x61, 0x20, 0x31, 0x20, 0x21] = []"
    by (simp add: eval_defs stop_words_def)
  then have h': "preprocess_text (with_tfidf fixture) [0x61, 0x20, 0x31, 0x20, 0x21] = []"
    by (simp add: with_tfidf_def)
  from calculate_similarity_no_tokens [OF _ h', of "[0x61, 0x62]"] h'
  show ?thesis by simp
qed

section \<open>Range of the score and absorbed failures\<close>

lemma calculate_similarity_grid:
  "\<exists>k::int. 0 \<le> k \<and> k \<le> 10000 \<and> calculate_similarity P text1 text2 = of_int k / 10000"
proof (cases "preprocess_text P text1 = [] \<or> preprocess_text P text2 = []")
  case True
  then have "calculate_similarity P text1 text2 = of_int 0 / 10000"
    by (simp add: calculate_similarity_def Let_def)
  then show ?thesis by (intro exI [of _ 0]) simp
next
  case False
  show ?thesis
  proof (cases "fit_cosine P (join [0x20] (preprocess_text P text1))
                  (join [0x20] (preprocess_text P text2))")
    case (Inl e)
    with False have "calculate_similarity P text1 text2 = of_int 0 / 10000"
      by (simp add: calculate_similarity_def Let_def)
    then show ?thesis by (intro exI [of _ 0]) simp
  next
    case (Inr s)
    with False have "calculate_similarity P text1 text2 = py_round4 (py_max 0 (py_min 1 s))"
      by (simp add: calculate_similarity_def Let_def)
    with py_round4_range [of "py_max 0 (py_min 1 s)"] py_clamp_range [of s]
    show ?thesis by simp
  qed
qed

text \<open>
  C3. Whatever the two texts are and whatever the vectorizer and the scorer do, the value
  of \<open>calculate_similarity\<close> lies between 0 and 1 and is a multiple of \<open>10\<^sup>-\<^sup>4\<close>, that is,
  a number with four decimal places.
\<close>

theorem calculate_similarity_range:
  "0 \<le> calculate_similarity P text1 text2 \<and> calculate_similarity P text1 text2 \<le> 1 \<and>
   (\<exists>k::int. calculate_similarity P text1 text2 = of_int k / 10000)"
proof -
  from calculate_similarity_grid [of P text1 text2]
  obtain k :: int where k: "0 \<le> k" "k \<le> 10000"
    and r: "calculate_similarity P text1 text2 = of_int k / 10000"
    by blast
  from k have "0 \<le> (of_int k :: real) / 10000" "(of_int k :: real) / 10000 \<le> 1"
    by simp_all
  with r show ?thesis by auto
qed

theorem calculate_similarity_range_witness:
  "calculate_similarity (fixture\<lparr>fit_cosine := (\<lambda>a b. Inr (7 / 3))\<rparr>) [0x61, 0x62] [0x63, 0x64] = 1 \<and>
   0 \<le> calculate_similarity (fixture\<lparr>fit_cosine := (\<lambda>a b. Inr (7 / 3))\<rparr>) [0x61, 0x62] [0x63, 0x64] \<and>
   calculate_similarity (fixture\<lparr>fit_cosine := (\<lambda>a b. Inr (7 / 3))\<rparr>) [0x61, 0x62] [0x63, 0x64] \<le> 1"
proof -
  have "calculate_similarity (fixture\<lparr>fit_cosine := (\<lambda>a b. Inr (7 / 3))\<rparr>)
          [0x61, 0x62] [0x63, 0x64] = 1"
    by (simp add: calculate_similarity_def eval_defs stop_words_def py_round4_def
          round_half_even_def py_max_def py_min_def)
  with calculate_similarity_range
         [of "fixture\<lparr>fit_cosine := (\<lambda>a b. Inr (7 / 3))\<rparr>" "[0x61, 0x62]" "[0x63, 0x64]"]
  show ?thesis by simp
qed

text \<open>
  C9. When both texts have tokens and the vectorizer or the scorer raises an exception on
  the two joined token sequences, \<open>calculate_similarity\<close> returns 0 and the exception
  goes no further.
\<close>

theorem calculate_similarity_absorbs:
  assumes "preprocess_text P text1 \<noteq> []" and "preprocess_text P text2 \<noteq> []"
    and "fit_cosine P (join [0x20] (preprocess_text P text1))
           (join [0x20] (preprocess_text P text2)) = Inl e"
  shows "calculate_similarity P text1 text2 = 0"
  using assms by (simp add: calculate_similarity_def Let_def)

theorem calculate_similarity_absorbs_witness:
  "preprocess_text fixture [0x61, 0x62] \<noteq> [] \<and> preprocess_text fixture [0x63, 0x64] \<noteq> [] \<and>
   fit_cosine fixture (join [0x20] (preprocess_text fixture [0x61, 0x62]))
     (join [0x20] (preprocess_text fixture [0x63, 0x64])) = Inl LibraryError \<and>
   calculate_similarity fixture [0x61, 0x62] [0x63, 0x64] = 0"
proof -
  have h1: "preprocess_text fixture [0x61, 0x62] \<noteq> []"
    by (simp add: eval_defs stop_words_def)
  have h2: "preprocess_text fixture [0x63, 0x64] \<noteq> []"
    by (simp add: eval_defs stop_words_def)
  have h3: "fit_cosine fixture (join [0x20] (preprocess_text fixture [0x61, 0x62]))
     (join [0x20] (preprocess_text fixture [0x63, 0x64])) = Inl LibraryError"
    by (simp add: fixture_def)
  from calculate_similarity_absorbs [OF h1 h2 h3] h1 h2 h3 show ?thesis by simp
qed

section \<open>Cleaning\<close>

lemma re_sub_each_filter: "re_sub_each (\<lambda>c. \<not> q c) [] t = filter q t"
  by (induction t) (simp_all add: re_sub_each_def)

lemma filter_not_dropWhile: "filter (\<lambda>c. \<not> p c) (dropWhile p cs) = filter (\<lambda>c. \<not> p c) cs"
  by (induction cs) simp_all

lemma re_sub_runs_delete: "re_sub_runs p [] s = filter (\<lambda>c. \<not> p c) s"
  by (induction p "[] :: ustr" s rule: re_sub_runs.induct)
     (simp_all add: filter_not_dropWhile)

lemma squeeze_run:
  "p c \<Longrightarrow> squeeze p (c # cs) = 0x20 # squeeze p (dropWhile p cs)"
  by (induction cs arbitrary: c) simp_all

lemma squeeze_other: "\<not> p c \<Longrightarrow> squeeze p (c # cs) = c # squeeze p cs"
  by (cases cs) simp_all

lemma re_sub_runs_squeeze: "re_sub_runs p [0x20] s = squeeze p s"
  by (induction p "[0x20] :: ustr" s rule: re_sub_runs.induct)
     (simp_all add: squeeze_run squeeze_other)

text \<open>
  C8, as the code has it. \<open>_clean_text\<close> removes every character that is neither
  whitespace, nor alphanumeric, nor the underscore, nor a CJK ideograph
  (U+4E00 to U+9FFF); then removes the decimal digits; then replaces every run of
  whitespace by one space; then trims whitespace at both ends. It is total and maps the
  empty string to the empty string.
\<close>

theorem clean_text_steps:
  "clean_text P t = clean_steps P t \<and> clean_text P [] = []"
proof -
  have "(\<lambda>c. \<not> (word_char P c \<or> u_isspace P c \<or> cjk c)) = (\<lambda>c. \<not> kept_char P c)"
    by (auto simp: kept_char_def word_char_def)
  then have "clean_text P t = clean_steps P t" for t
    by (simp add: clean_text_def clean_steps_def Let_def re_sub_each_filter
          re_sub_runs_delete re_sub_runs_squeeze)
  moreover have "clean_steps P [] = []"
    by (simp add: clean_steps_def strip_def)
  ultimately show ?thesis by simp
qed

theorem clean_text_steps_witness:
  "clean_text fixture [0x48, 0x69, 0x21, 0x20, 0x09, 0x34, 0x32, 0x5F, 0x4F60, 0x597D, 0xFF01, 0x20]
     = [0x48, 0x69, 0x20, 0x5F, 0x4F60, 0x597D]"
proof -
  have "clean_steps fixture
          [0x48, 0x69, 0x21, 0x20, 0x09, 0x34, 0x32, 0x5F, 0x4F60, 0x597D, 0xFF01, 0x20]
        = [0x48, 0x69, 0x20, 0x5F, 0x4F60, 0x597D]"
    by (simp add: clean_steps_def kept_char_def eval_defs)
  with clean_text_steps
         [of fixture "[0x48, 0x69, 0x21, 0x20, 0x09, 0x34, 0x32, 0x5F, 0x4F60, 0x597D, 0xFF01, 0x20]"]
  show ?thesis by simp
qed

text \<open>
  The underscore is neither whitespace, nor alphanumeric, nor a CJK ideograph, and
  \<open>_clean_text\<close> keeps it: \<open>\w\<close> matches it.
\<close>

theorem clean_text_underscore_counterexample:
  "clean_text fixture [0x5F] = [0x5F] \<and>
   \<not> u_isspace fixture 0x5F \<and> \<not> u_isalnum fixture 0x5F \<and> \<not> cjk 0x5F"
  by (simp add: eval_defs)

section \<open>Reading a file\<close>

lemma try_encodings_File:
  assumes "lookup P w p = Inr (File b)"
  shows "try_encodings P w p encs =
     (case find (\<lambda>enc. codec_decode P enc b \<noteq> Inl UnicodeDecodeError) encs of
        None \<Rightarrow> Inl TypeError
      | Some enc \<Rightarrow>
          (case codec_decode P enc b of
             Inl e \<Rightarrow> Inl e
           | Inr s \<Rightarrow> if strip P s \<noteq> [] then Inr (strip P s) else Inl ValueError))"
  using assms
  by (induction encs) (auto simp: open_read_def Let_def split: sum.splits)

lemma read_file_File:
  assumes "lookup P w p = Inr (File b)" and "b \<noteq> []"
  shows "read_file P w p = try_encodings P w p encodings"
  using assms by (simp add: read_file_def os_path_exists_def os_path_getsize_def)

lemmas lookup_defs = lookup_def path_check_def components_def start_of_def trailing_slash_def
  node_at_def

text \<open>
  C6, as the code has it. For an existing file that is not empty, \<open>read_file\<close> tries
  utf-8, gbk, gb2312 and utf-16 in this order, passing over the encodings that raise
  \<open>UnicodeDecodeError\<close>, and stops at the first encoding that decodes the file: it
  returns the decoded content with the whitespace at both ends trimmed when that is not
  empty, and raises \<open>ValueError\<close> when it is empty, without trying the encodings that
  follow.
\<close>

theorem read_file_first_decodable:
  assumes "lookup P w file_path = Inr (File b)" and "b \<noteq> []"
    and "find (\<lambda>enc. codec_decode P enc b \<noteq> Inl UnicodeDecodeError) encodings = Some enc"
    and "codec_decode P enc b = Inr s"
  shows "encodings = [UTF8, GBK, GB2312, UTF16] \<and>
         read_file P w file_path =
           (if strip P s \<noteq> [] then Inr (strip P s) else Inl ValueError)"
  using assms
  by (simp add: read_file_File try_encodings_File) (simp add: encodings_def)

theorem read_file_first_decodable_witness:
  "read_file fixture sample_world ''orig.txt'' = Inr [0x61, 0x62, 0x20, 0x20, 0x63, 0x64] \<and>
   read_file fixture sample_world ''nbsp.txt'' = Inl ValueError"
proof -
  have a1: "lookup fixture sample_world ''orig.txt'' = Inr (File ''ab  cd '')"
    by (simp add: lookup_defs world_defs fixture_def)
  have a2: "find (\<lambda>enc. codec_decode fixture enc ''ab  cd '' \<noteq> Inl UnicodeDecodeError) encodings
              = Some UTF8"
    by (simp add: encodings_def fixture_def fixture_decode_def printable_def)
  have a3: "codec_decode fixture UTF8 ''ab  cd '' = Inr [0x61, 0x62, 0x20, 0x20, 0x63, 0x64, 0x20]"
    by (simp add: fixture_def fixture_decode_def printable_def)
  have b1: "lookup fixture sample_world ''nbsp.txt'' = Inr (File [CHR 0xC2, CHR 0xA0])"
    by (simp add: lookup_defs world_defs fixture_def)
  have b2: "find (\<lambda>enc. codec_decode fixture enc [CHR 0xC2, CHR 0xA0] \<noteq> Inl UnicodeDecodeError)
              encodings = Some UTF8"
    by (simp add: encodings_def fixture_def fixture_decode_def)
  have b3: "codec_decode fixture UTF8 [CHR 0xC2, CHR 0xA0] = Inr [0xA0]"
    by (simp add: fixture_def fixture_decode_def)
  have "read_file fixture sample_world ''orig.txt'' = Inr [0x61, 0x62, 0x20, 0x20, 0x63, 0x64]"
    using read_file_first_decodable
            [of fixture sample_world "''orig.txt''" "''ab  cd ''" UTF8
                "[0x61, 0x62, 0x20, 0x20, 0x63, 0x64, 0x20]"] a1 a2 a3
    by (simp add: eval_defs)
  moreover have "read_file fixture sample_world ''nbsp.txt'' = Inl ValueError"
    using read_file_first_decodable
            [of fixture sample_world "''nbsp.txt''" "[CHR 0xC2, CHR 0xA0]" UTF8 "[0xA0]"] b1 b2 b3
    by (simp add: eval_defs)
  ultimately show ?thesis by simp
qed

text \<open>
  The file \<open>nbsp.txt\<close> decodes as utf-8 to a no-break space, which is blank, and as gbk
  to U+807D, which is not: the first decoding with content is the gbk one, and
  \<open>read_file\<close> raises \<open>ValueError\<close> instead of returning it.
\<close>

theorem read_file_blank_counterexample:
  "first_nonblank_decode fixture [CHR 0xC2, CHR 0xA0] = Some [0x807D] \<and>
   read_file fixture sample_world ''nbsp.txt'' = Inl ValueError"
proof -
  have b1: "lookup fixture sample_world ''nbsp.txt'' = Inr (File [CHR 0xC2, CHR 0xA0])"
    by (simp add: lookup_defs world_defs fixture_def)
  have "read_file fixture sample_world ''nbsp.txt''
          = try_encodings fixture sample_world ''nbsp.txt'' encodings"
    by (rule read_file_File [OF b1]) simp
  then have "read_file fixture sample_world ''nbsp.txt'' = Inl ValueError"
    unfolding try_encodings_File [OF b1]
    by (simp add: encodings_def fixture_decode_def eval_defs)
  moreover have "first_nonblank_decode fixture [CHR 0xC2, CHR 0xA0] = Some [0x807D]"
    by (simp add: first_nonblank_decode_def List.map_filter_def encodings_def
          fixture_decode_def eval_defs)
  ultimately show ?thesis by simp
qed

text \<open>
  C7. For an existing file that is not empty and that none of the four encodings
  decodes, \<open>read_file\<close> raises an exception that is never the \<open>UnicodeDecodeError\<close> its
  docstring announces: \<open>TypeError\<close> when every encoding raised \<open>UnicodeDecodeError\<close>,
  and otherwise the exception of the first encoding that raised something else, which
  the loop does not catch.
\<close>

theorem read_file_undecodable:
  assumes "lookup P w file_path = Inr (File b)" and "b \<noteq> []"
    and "\<forall>enc \<in> set encodings. \<exists>e. codec_decode P enc b = Inl e"
  shows "(\<exists>e. read_file P w file_path = Inl e \<and> e \<noteq> UnicodeDecodeError) \<and>
         ((\<forall>enc \<in> set encodings. codec_decode P enc b = Inl UnicodeDecodeError) \<longrightarrow>
            read_file P w file_path = Inl TypeError) \<and>
         (\<forall>enc e. find (\<lambda>enc. codec_decode P enc b \<noteq> Inl UnicodeDecodeError) encodings = Some enc \<and>
                  codec_decode P enc b = Inl e \<longrightarrow>
            read_file P w file_path = Inl e)"
proof -
  let ?first = "find (\<lambda>enc. codec_decode P enc b \<noteq> Inl UnicodeDecodeError) encodings"
  have r: "read_file P w file_path =
     (case ?first of
        None \<Rightarrow> Inl TypeError
      | Some enc \<Rightarrow>
          (case codec_decode P enc b of
             Inl e \<Rightarrow> Inl e
           | Inr s \<Rightarrow> if strip P s \<noteq> [] then Inr (strip P s) else Inl ValueError))"
    using assms(1,2) by (simp add: read_file_File try_encodings_File)
  have a: "\<exists>e. read_file P w file_path = Inl e \<and> e \<noteq> UnicodeDecodeError"
  proof (cases ?first)
    case None
    with r show ?thesis by simp
  next
    case (Some enc)
    then have m: "enc \<in> set encodings" and n: "codec_decode P enc b \<noteq> Inl UnicodeDecodeError"
      by (auto simp: find_Some_iff)
    from m assms(3) obtain e where "codec_decode P enc b = Inl e" by blast
    with n r Some show ?thesis by auto
  qed
  have b: "read_file P w file_path = Inl TypeError"
    if "\<forall>enc \<in> set encodings. codec_decode P enc b = Inl UnicodeDecodeError"
  proof -
    from that have "?first = None" by (simp add: find_None_iff)
    with r show ?thesis by simp
  qed
  have c: "read_file P w file_path = Inl e"
    if "?first = Some enc" "codec_decode P enc b = Inl e" for enc e
    using r that by simp
  from a b c show ?thesis by blast
qed

theorem read_file_undecodable_witness:
  "lookup fixture sample_world ''bad.txt'' = Inr (File [CHR 0xFF]) \<and>
   codec_decode fixture UTF8 [CHR 0xFF] = Inl UnicodeDecodeError \<and>
   codec_decode fixture GBK [CHR 0xFF] = Inl UnicodeDecodeError \<and>
   codec_decode fixture GB2312 [CHR 0xFF] = Inl UnicodeDecodeError \<and>
   codec_decode fixture UTF16 [CHR 0xFF] = Inl UnicodeDecodeError \<and>
   read_file fixture sample_world ''bad.txt'' = Inl TypeError"
proof -
  have h1: "lookup fixture sample_world ''bad.txt'' = Inr (File [CHR 0xFF])"
    by (simp add: lookup_defs world_defs fixture_def)
  have h3: "codec_decode fixture enc [CHR 0xFF] = Inl UnicodeDecodeError" for enc
    by (simp add: fixture_def fixture_decode_def printable_def)
  from read_file_undecodable [of fixture sample_world "''bad.txt''" "[CHR 0xFF]"] h1 h3
  show ?thesis by simp
qed

text \<open>
  The file \<open>nobom.txt\<close> is rejected by utf-8, gbk and gb2312 with
  \<open>UnicodeDecodeError\<close> and by the utf-16 reader with \<open>UnicodeError\<close>, which leaves
  \<open>read_file\<close> as it is.
\<close>

lemma read_file_nobom:
  "read_file fixture sample_world ''nobom.txt'' = Inl UnicodeError"
proof -
  have h1: "lookup fixture sample_world ''nobom.txt'' = Inr (File [CHR 0xFF, CHR 0xFF])"
    by (simp add: lookup_defs world_defs fixture_def)
  have "read_file fixture sample_world ''nobom.txt''
          = try_encodings fixture sample_world ''nobom.txt'' encodings"
    by (rule read_file_File [OF h1]) simp
  then show ?thesis
    unfolding try_encodings_File [OF h1]
    by (simp add: encodings_def fixture_def fixture_decode_def printable_def)
qed

section \<open>The fallback output\<close>




subsection \<open>Resolution after a write\<close>







subsection \<open>Paths of plain names\<close>











subsection \<open>Resolution along plain names\<close>






subsection \<open>Making the directories and writing the file\<close>














section \<open>Symmetry and identity of the score\<close>

lemma vocabulary_commute: "vocabulary a b = vocabulary b a"
proof -
  have "(\<lambda>f. - int (count_list a f + count_list b f))
          = (\<lambda>f. - int (count_list b f + count_list a f))"
    by (simp add: add.commute)
  then show ?thesis
    by (simp add: vocabulary_def Let_def Un_commute [of "set a" "set b"])
qed

lemma idf_commute: "idf a b f = idf b a f"
  by (simp add: idf_def doc_freq_def)

lemma feature_vector_commute: "feature_vector a b d = feature_vector b a d"
  by (simp add: feature_vector_def vocabulary_commute [of a b] idf_commute [of a b])

lemma dot_commute: "dot x y = dot y x"
  unfolding dot_def
  by (induction x y rule: list_induct2') (simp_all add: mult.commute)

lemma score_commute: "score x y = score y x"
  by (auto simp: score_def dot_commute [of x y] mult.commute)

lemma tfidf_cosine_commute: "tfidf_cosine a b = tfidf_cosine b a"
  by (simp add: tfidf_cosine_def vectorize_def feature_vector_commute [of a b]
        score_commute [of "feature_vector b a a"])

lemma preprocess_text_with_tfidf [simp]:
  "preprocess_text (with_tfidf P) t = preprocess_text P t"
  by (simp add: with_tfidf_def)

text \<open>
  C4. With the vectorizer and the scorer of the design, the score of two texts does not
  depend on their order.
\<close>

theorem calculate_similarity_symmetric:
  "calculate_similarity (with_tfidf P) text1 text2 = calculate_similarity (with_tfidf P) text2 text1"
proof -
  have "fit_cosine (with_tfidf P) a b = fit_cosine (with_tfidf P) b a" for a b
    by (simp add: with_tfidf_def tfidf_cosine_commute [of a b])
  then show ?thesis
    by (auto simp: calculate_similarity_def Let_def)
qed

theorem calculate_similarity_symmetric_witness:
  "calculate_similarity (with_tfidf fixture) [0x61, 0x62, 0x20, 0x63, 0x64] [0x61, 0x62]
     = calculate_similarity (with_tfidf fixture) [0x61, 0x62] [0x61, 0x62, 0x20, 0x63, 0x64]"
  using calculate_similarity_symmetric [of fixture "[0x61, 0x62, 0x20, 0x63, 0x64]" "[0x61, 0x62]"]
  by simp

lemma join_not_Nil: "ws \<noteq> [] \<Longrightarrow> hd ws \<noteq> [] \<Longrightarrow> join sep ws \<noteq> []"
  by (induction sep ws rule: join.induct) simp_all

lemma preprocess_text_words: "w \<in> set (preprocess_text P t) \<Longrightarrow> 1 < length w"
  by (auto simp: preprocess_text_def split: if_splits)

lemma vocabulary_subset: "set (vocabulary a b) \<subseteq> set a \<union> set b"
  by (auto simp: vocabulary_def Let_def)

lemma vocabulary_not_Nil:
  assumes "a \<noteq> []"
  shows "vocabulary a b \<noteq> []"
proof -
  let ?feats = "sorted_list_of_set (set a \<union> set b)"
  let ?key = "\<lambda>f. - int (count_list a f + count_list b f)"
  let ?top = "take max_features (sort_key ?key ?feats)"
  have ne: "?feats \<noteq> []"
    using assms by (simp add: sorted_list_of_set_eq_Nil_iff)
  show ?thesis
  proof (cases "length ?feats > max_features")
    case False
    with ne show ?thesis by (simp add: vocabulary_def Let_def)
  next
    case True
    then have "length ?top = max_features" by simp
    then have "0 < length ?top" by (simp add: max_features_def)
    then have "?top \<noteq> []" by (rule iffD1 [OF length_greater_0_conv])
    then obtain f where f: "f \<in> set ?top" by (cases ?top) auto
    then have "f \<in> set (sort_key ?key ?feats)" by (rule in_set_takeD)
    then have "f \<in> set ?feats" by simp
    with f have "f \<in> set (filter (\<lambda>f. f \<in> set ?top) ?feats)" by simp
    then have "filter (\<lambda>f. f \<in> set ?top) ?feats \<noteq> []"
      by (metis empty_iff list.set(1))
    moreover have "vocabulary a b = filter (\<lambda>f. f \<in> set ?top) ?feats"
      using True unfolding vocabulary_def Let_def by (simp only: if_True)
    ultimately show ?thesis by (simp only: not_False_eq_True)
  qed
qed

lemma dot_self_nonneg: "0 \<le> dot x x"
  unfolding dot_def by (induction x) simp_all

lemma dot_self_pos: "v \<in> set x \<Longrightarrow> v \<noteq> 0 \<Longrightarrow> 0 < dot x x"
proof (induction x)
  case Nil
  then show ?case by simp
next
  case (Cons a x)
  have nn: "0 \<le> dot x x" by (rule dot_self_nonneg)
  have c: "dot (a # x) (a # x) = a * a + dot x x" by (simp add: dot_def)
  show ?case
  proof (cases "a = 0")
    case True
    with Cons show ?thesis by (auto simp: dot_def)
  next
    case False
    then have "0 < a * a"
      using zero_less_power2 [of a] by (simp add: power2_eq_square)
    with nn c show ?thesis by simp
  qed
qed

lemma score_self: "0 < dot x x \<Longrightarrow> score x x = 1"
  by (simp add: score_def magnitude_def)

lemma idf_self: "f \<in> set d \<Longrightarrow> idf d d f = 1"
  by (simp add: idf_def doc_freq_def)

lemma tfidf_cosine_self:
  assumes "d \<noteq> []"
  shows "tfidf_cosine d d = Inr 1"
proof -
  let ?x = "feature_vector d d d"
  from vocabulary_not_Nil [OF assms, of d] obtain f where f: "f \<in> set (vocabulary d d)"
    by (cases "vocabulary d d") auto
  with vocabulary_subset [of d d] have fd: "f \<in> set d" by auto
  then have "0 < count_list d f" using count_list_0_iff [of d f] by simp
  with fd have "real (count_list d f) * idf d d f \<noteq> 0" by (simp add: idf_self)
  moreover have "real (count_list d f) * idf d d f \<in> set ?x"
    using f by (auto simp: feature_vector_def)
  ultimately have "0 < dot ?x ?x" by (rule dot_self_pos [rotated])
  then show ?thesis by (simp add: tfidf_cosine_def vectorize_def score_self)
qed

lemma py_round4_one: "py_round4 (py_max 0 (py_min 1 1)) = 1"
  by (simp add: py_round4_def round_half_even_def py_max_def py_min_def)

text \<open>
  C1. With the vectorizer and the scorer of the design, a text whose token sequence is
  not empty scores exactly 1 against itself, which is within the tolerance of 0.1.
\<close>

theorem calculate_similarity_identical:
  assumes "preprocess_text P t \<noteq> []"
  shows "calculate_similarity (with_tfidf P) t t = 1"
proof -
  let ?ws = "preprocess_text P t"
  from assms have "hd ?ws \<in> set ?ws" by simp
  then have "hd ?ws \<noteq> []" using preprocess_text_words [of "hd ?ws" P t] by auto
  with assms have "join [0x20] ?ws \<noteq> []" by (rule join_not_Nil)
  then have "fit_cosine (with_tfidf P) (join [0x20] ?ws) (join [0x20] ?ws) = Inr 1"
    by (simp add: with_tfidf_def tfidf_cosine_self)
  with assms show ?thesis
    by (simp add: calculate_similarity_def Let_def py_round4_one)
qed

theorem calculate_similarity_identical_witness:
  "preprocess_text fixture [0x61, 0x62, 0x20, 0x63, 0x64] \<noteq> [] \<and>
   calculate_similarity (with_tfidf fixture) [0x61, 0x62, 0x20, 0x63, 0x64]
     [0x61, 0x62, 0x20, 0x63, 0x64] = 1"
proof -
  have h: "preprocess_text fixture [0x61, 0x62, 0x20, 0x63, 0x64] \<noteq> []"
    by (simp add: eval_defs stop_words_def)
  from calculate_similarity_identical [OF h] h show ?thesis by simp
qed

end
